theory Spec2Isabelle
  imports Complex_Main "HOL-Library.AList" "HOL-Library.Char_ord" "HOL-Library.List_Lexorder"
    "HOL-Library.Product_Lexorder"
begin

section \<open>Tables of support tickets\<close>

text \<open>
  The functions of \<^verbatim>\<open>utils.py\<close> work on pandas tables. A table is modelled column-wise:
  the number of its rows and its columns in order, each a name with the list of its cells.
  A cell is null (\<open>NA\<close>: pandas' NaN, NaT, None and pd.NA alike), a string, a number or a
  timestamp. Numbers are exact rationals, so the rounding of float64 is not represented;
  timestamps are nanoseconds since the epoch, as in datetime64[ns].
\<close>

datatype cell = NA | Str string | Num rat | Ts int

datatype error = KeyError | TypeError

record dataframe =
  nrows :: nat
  cols :: "(string \<times> cell list) list"

text \<open>A pandas table has columns of one common length: the length of its index.\<close>

definition wf_df :: "dataframe \<Rightarrow> bool" where
  "wf_df df = list_all (\<lambda>c. length (snd c) = nrows df) (cols df)"

text \<open>The column names that the code spells out.\<close>

definition satisfaction_col :: string where
  "satisfaction_col = ''Customer Satisfaction Rating''"

definition purchase_col :: string where
  "purchase_col = ''Date of Purchase''"

definition response_col :: string where
  "response_col = ''First Response Time''"

definition resolution_col :: string where
  "resolution_col = ''Time to Resolution''"

definition resolution_ts_col :: string where
  "resolution_ts_col = ''Time to Resolution Timestamp''"

definition priority_col :: string where
  "priority_col = ''Ticket Priority''"

definition channel_col :: string where
  "channel_col = ''Ticket Channel''"

definition status_col :: string where
  "status_col = ''Ticket Status''"

definition product_col :: string where
  "product_col = ''Product Purchased''"

subsection \<open>Column access\<close>

text \<open>\<^verbatim>\<open>name in df.columns\<close>\<close>

definition has_col :: "dataframe \<Rightarrow> string \<Rightarrow> bool" where
  "has_col df name = (name \<in> fst ` set (cols df))"

text \<open>\<^verbatim>\<open>df[name]\<close>: raises KeyError when the table has no such column.\<close>

definition getitem :: "dataframe \<Rightarrow> string \<Rightarrow> error + cell list" where
  "getitem df name = (case map_of (cols df) name of None \<Rightarrow> Inl KeyError | Some c \<Rightarrow> Inr c)"

text \<open>
  \<^verbatim>\<open>df[name] = series\<close>: an existing column is replaced where it stands, a new one is
  appended after the others.
\<close>

definition setitem :: "dataframe \<Rightarrow> string \<Rightarrow> cell list \<Rightarrow> dataframe" where
  "setitem df name c = df\<lparr>cols := AList.update name c (cols df)\<rparr>"

text \<open>\<^verbatim>\<open>df[name] = scalar\<close>: the scalar fills the column, one cell per row.\<close>

definition setitem_scalar :: "dataframe \<Rightarrow> string \<Rightarrow> cell \<Rightarrow> dataframe" where
  "setitem_scalar df name v = setitem df name (replicate (nrows df) v)"

text \<open>The cell of a column at a row, when the table has both.\<close>

definition cell_at :: "dataframe \<Rightarrow> string \<Rightarrow> nat \<Rightarrow> cell option" where
  "cell_at df name i =
     (case map_of (cols df) name of
        None \<Rightarrow> None
      | Some c \<Rightarrow> if i < length c then Some (c ! i) else None)"

text \<open>
  Boolean indexing \<^verbatim>\<open>df[mask]\<close>: the rows whose mask entry is true, in their order,
  in every column.
\<close>

definition select :: "bool list \<Rightarrow> 'a list \<Rightarrow> 'a list" where
  "select m xs = map snd (filter fst (zip m xs))"

definition mask_rows :: "bool list \<Rightarrow> dataframe \<Rightarrow> dataframe" where
  "mask_rows m df =
     \<lparr>nrows = length (filter id m), cols = map (\<lambda>(n, c). (n, select m c)) (cols df)\<rparr>"

section \<open>Cleaning\<close>

text \<open>
  \<^verbatim>\<open>pd.to_numeric\<close> and \<^verbatim>\<open>pd.to_datetime\<close> are pandas' parsers, not code of this
  repository: \<open>clean_data\<close> takes them as parameters. With \<^verbatim>\<open>errors="coerce"\<close> a cell
  that does not parse becomes null, and a null cell stays null. The timestamp parser sees
  the whole column besides the cell, since pandas settles the format on the column.
\<close>

type_synonym numeric_parser = "cell \<Rightarrow> rat option"
type_synonym datetime_parser = "cell list \<Rightarrow> cell \<Rightarrow> int option"

definition pd_to_numeric :: "numeric_parser \<Rightarrow> cell list \<Rightarrow> cell list" where
  "pd_to_numeric p xs =
     map (\<lambda>c. case c of NA \<Rightarrow> NA
               | _ \<Rightarrow> (case p c of None \<Rightarrow> NA | Some r \<Rightarrow> Num r)) xs"

definition coerce_datetime :: "datetime_parser \<Rightarrow> cell list \<Rightarrow> cell \<Rightarrow> int option" where
  "coerce_datetime p xs c = (case c of NA \<Rightarrow> None | _ \<Rightarrow> p xs c)"

definition pd_to_datetime :: "datetime_parser \<Rightarrow> cell list \<Rightarrow> cell list" where
  "pd_to_datetime p xs =
     map (\<lambda>c. case coerce_datetime p xs c of None \<Rightarrow> NA | Some t \<Rightarrow> Ts t) xs"

text \<open>
  The difference of two timestamp columns, cell by cell, in nanoseconds; null where either
  side is null.
\<close>

fun ts_sub :: "cell \<Rightarrow> cell \<Rightarrow> int option" where
  "ts_sub (Ts a) (Ts b) = Some (a - b)"
| "ts_sub _ _ = None"

definition series_sub :: "cell list \<Rightarrow> cell list \<Rightarrow> int option list" where
  "series_sub xs ys = map (\<lambda>(x, y). ts_sub x y) (zip xs ys)"

text \<open>\<^verbatim>\<open>time_diff.dt.total_seconds() / 3600\<close>\<close>

definition total_seconds :: "int \<Rightarrow> rat" where
  "total_seconds ns = of_int ns / 1000000000"

definition hours_of :: "int option \<Rightarrow> cell" where
  "hours_of d = (case d of None \<Rightarrow> NA | Some ns \<Rightarrow> Num (total_seconds ns / 3600))"

text \<open>\<^verbatim>\<open>df.loc[df[col] <= 0, col] = pd.NA\<close>: a null cell compares false and is kept.\<close>

fun le_zero :: "cell \<Rightarrow> bool" where
  "le_zero (Num h) = (h \<le> 0)"
| "le_zero _ = False"

definition null_where_le_zero :: "cell list \<Rightarrow> cell list" where
  "null_where_le_zero xs = map (\<lambda>c. if le_zero c then NA else c) xs"

text \<open>
  \<open>clean_data\<close>, statement by statement. The first statement reads the satisfaction
  column with no test that it is there; the three that follow are each under
  \<^verbatim>\<open>if name in df_clean.columns\<close>.
\<close>

definition clean_satisfaction :: "numeric_parser \<Rightarrow> dataframe \<Rightarrow> error + dataframe" where
  "clean_satisfaction num df =
     (case getitem df satisfaction_col of
        Inl e \<Rightarrow> Inl e
      | Inr c \<Rightarrow> Inr (setitem df satisfaction_col (pd_to_numeric num c)))"

definition clean_datetime_col :: "datetime_parser \<Rightarrow> string \<Rightarrow> dataframe \<Rightarrow> dataframe" where
  "clean_datetime_col dt name df =
     (case map_of (cols df) name of
        None \<Rightarrow> df
      | Some c \<Rightarrow> setitem df name (pd_to_datetime dt c))"

definition derive_resolution :: "datetime_parser \<Rightarrow> dataframe \<Rightarrow> dataframe" where
  "derive_resolution dt df =
     (case map_of (cols df) resolution_col of
        None \<Rightarrow> df
      | Some raw \<Rightarrow>
          let parsed = pd_to_datetime dt raw;
              df1 = setitem df resolution_ts_col parsed
          in (case map_of (cols df1) response_col of
                Some first \<Rightarrow>
                  let time_diff = series_sub parsed first;
                      df2 = setitem df1 resolution_col (map hours_of time_diff)
                  in (case map_of (cols df2) resolution_col of
                        None \<Rightarrow> df2
                      | Some h \<Rightarrow> setitem df2 resolution_col (null_where_le_zero h))
              | None \<Rightarrow> setitem_scalar df1 resolution_col NA))"

definition clean_data :: "numeric_parser \<Rightarrow> datetime_parser \<Rightarrow> dataframe \<Rightarrow> error + dataframe" where
  "clean_data num dt df =
     (case clean_satisfaction num df of
        Inl e \<Rightarrow> Inl e
      | Inr df1 \<Rightarrow>
          Inr (derive_resolution dt
                (clean_datetime_col dt response_col
                  (clean_datetime_col dt purchase_col df1))))"

text \<open>
  The column that \<open>clean_data\<close> leaves under the name of the raw resolution field, given
  the raw resolution column, the raw first-response column when the table has one, and
  the number of rows.
\<close>

definition derived_hours ::
  "datetime_parser \<Rightarrow> cell list \<Rightarrow> cell list option \<Rightarrow> nat \<Rightarrow> cell list" where
  "derived_hours dt raw first n =
     (case first of
        None \<Rightarrow> replicate n NA
      | Some fr \<Rightarrow>
          null_where_le_zero
            (map hours_of (series_sub (pd_to_datetime dt raw) (pd_to_datetime dt fr))))"

section \<open>Filtering\<close>

text \<open>
  A step that raises ends the function: the steps of a function are chained so that the
  first error is the result.
\<close>

definition bind_err :: "error + 'a \<Rightarrow> ('a \<Rightarrow> error + 'b) \<Rightarrow> error + 'b" where
  "bind_err r f = (case r of Inl e \<Rightarrow> Inl e | Inr x \<Rightarrow> f x)"

text \<open>
  The date bounds are the instants \<^verbatim>\<open>pd.Timestamp(start_date)\<close> and
  \<^verbatim>\<open>pd.Timestamp(end_date)\<close>; the caller passes either no range or a pair. Comparing
  a string or a number with a Timestamp is a TypeError in pandas; a null cell compares
  false.
\<close>

fun comparable_ts :: "cell \<Rightarrow> bool" where
  "comparable_ts (Str s) = False"
| "comparable_ts (Num r) = False"
| "comparable_ts c = True"

definition in_range :: "int \<Rightarrow> int \<Rightarrow> cell \<Rightarrow> bool" where
  "in_range start_date end_date c =
     (case c of Ts t \<Rightarrow> start_date \<le> t \<and> t \<le> end_date | _ \<Rightarrow> False)"

definition date_filter :: "(int \<times> int) option \<Rightarrow> dataframe \<Rightarrow> error + dataframe" where
  "date_filter date_range df =
     (case date_range of
        None \<Rightarrow> Inr df
      | Some (start_date, end_date) \<Rightarrow>
          (case map_of (cols df) purchase_col of
             None \<Rightarrow> Inr df
           | Some c \<Rightarrow>
               if list_all comparable_ts c
               then Inr (mask_rows (map (in_range start_date end_date) c) df)
               else Inl TypeError))"

text \<open>
  \<^verbatim>\<open>if values and len(values) > 0: df = df[df[name].isin(values)]\<close>; the column is
  read with no test that it is there.
\<close>

definition isin_filter :: "string \<Rightarrow> cell list option \<Rightarrow> dataframe \<Rightarrow> error + dataframe" where
  "isin_filter name allowed df =
     (case allowed of
        None \<Rightarrow> Inr df
      | Some vs \<Rightarrow>
          if 0 < length vs
          then (case getitem df name of
                  Inl e \<Rightarrow> Inl e
                | Inr c \<Rightarrow> Inr (mask_rows (map (\<lambda>x. x \<in> set vs) c) df))
          else Inr df)"

definition filter_data ::
  "dataframe \<Rightarrow> (int \<times> int) option \<Rightarrow> cell list option \<Rightarrow> cell list option \<Rightarrow>
     cell list option \<Rightarrow> cell list option \<Rightarrow> error + dataframe" where
  "filter_data df date_range priorities channels statuses products =
     bind_err (date_filter date_range df) (\<lambda>d1.
     bind_err (isin_filter priority_col priorities d1) (\<lambda>d2.
     bind_err (isin_filter channel_col channels d2) (\<lambda>d3.
     bind_err (isin_filter status_col statuses d3) (\<lambda>d4.
     isin_filter product_col products d4))))"

text \<open>An allow-list that is omitted or empty.\<close>

definition unconstrained :: "cell list option \<Rightarrow> bool" where
  "unconstrained allowed = (case allowed of None \<Rightarrow> True | Some vs \<Rightarrow> vs = [])"

section \<open>Aggregation\<close>

subsection \<open>Key figures\<close>

record kpis =
  total_tickets :: nat
  avg_satisfaction :: cell
  avg_resolution_time :: cell
  open_tickets :: nat
  closed_tickets :: nat

text \<open>
  \<^verbatim>\<open>series.mean()\<close> skips nulls and is null when nothing is left. Only numeric columns
  are modelled: a string or a timestamp among the cells is reported as TypeError.
\<close>

fun numeric_or_null :: "cell \<Rightarrow> bool" where
  "numeric_or_null NA = True"
| "numeric_or_null (Num r) = True"
| "numeric_or_null c = False"

fun numbers :: "cell list \<Rightarrow> rat list" where
  "numbers [] = []"
| "numbers (Num r # cs) = r # numbers cs"
| "numbers (c # cs) = numbers cs"

definition mean_cell :: "rat list \<Rightarrow> cell" where
  "mean_cell vs = (if vs = [] then NA else Num (sum_list vs / of_nat (length vs)))"

definition series_mean :: "cell list \<Rightarrow> error + cell" where
  "series_mean xs =
     (if list_all numeric_or_null xs then Inr (mean_cell (numbers xs)) else Inl TypeError)"

text \<open>
  \<^verbatim>\<open>len(df[df["Ticket Status"] == s]) if s in df["Ticket Status"].values else 0\<close>
\<close>

definition count_status :: "dataframe \<Rightarrow> string \<Rightarrow> error + nat" where
  "count_status df s =
     bind_err (getitem df status_col) (\<lambda>values.
       if Str s \<in> set values
       then bind_err (getitem df status_col) (\<lambda>st.
              Inr (nrows (mask_rows (map (\<lambda>c. c = Str s) st) df)))
       else Inr 0)"

definition calculate_kpis :: "dataframe \<Rightarrow> error + kpis" where
  "calculate_kpis df =
     bind_err (bind_err (getitem df satisfaction_col) series_mean) (\<lambda>sat.
     bind_err (bind_err (getitem df resolution_col) series_mean) (\<lambda>res.
     bind_err (count_status df ''Open'') (\<lambda>n_open.
     bind_err (count_status df ''Closed'') (\<lambda>n_closed.
       Inr \<lparr>total_tickets = nrows df, avg_satisfaction = sat, avg_resolution_time = res,
            open_tickets = n_open, closed_tickets = n_closed\<rparr>))))"

subsection \<open>Grouped summaries\<close>

text \<open>The distinct values of a column, each at its first occurrence.\<close>

definition unique :: "'a list \<Rightarrow> 'a list" where
  "unique xs = rev (remdups (rev xs))"

definition notna :: "cell \<Rightarrow> bool" where
  "notna c = (c \<noteq> NA)"

text \<open>
  \<^verbatim>\<open>groupby(column, dropna=False)\<close> lists its groups by sorted key: numbers, then
  strings, and the null group last.
\<close>

definition group_rank :: "cell \<Rightarrow> nat \<times> rat \<times> string \<times> int" where
  "group_rank c =
     (case c of Num r \<Rightarrow> (0, r, [], 0) | Str s \<Rightarrow> (1, 0, s, 0)
      | Ts t \<Rightarrow> (2, 0, [], t) | NA \<Rightarrow> (3, 0, [], 0))"

definition group_keys :: "cell list \<Rightarrow> cell list" where
  "group_keys keys = sort_key group_rank (unique keys)"

text \<open>
  \<^verbatim>\<open>.agg(["mean", "count"])\<close> of a value column per group: the mean and the number
  of the non-null values of the group's rows.
\<close>

definition group_values :: "cell list \<Rightarrow> cell list \<Rightarrow> cell \<Rightarrow> rat list" where
  "group_values keys vals k = numbers (select (map (\<lambda>x. x = k) keys) vals)"

definition agg_mean_count :: "cell list \<Rightarrow> cell list \<Rightarrow> error + (cell \<times> cell \<times> nat) list" where
  "agg_mean_count keys vals =
     (if list_all numeric_or_null vals
      then Inr (map (\<lambda>k. (k, mean_cell (group_values keys vals k),
                              length (group_values keys vals k)))
                 (group_keys keys))
      else Inl TypeError)"

text \<open>
  \<^verbatim>\<open>sort_values("mean", ascending=False)\<close>: largest mean first, null means last. The
  order that pandas' default sort leaves among equal means is not specified; here they
  keep the order of the groups.
\<close>

definition desc_rank :: "cell \<Rightarrow> nat \<times> rat" where
  "desc_rank m = (case m of Num r \<Rightarrow> (0, - r) | _ \<Rightarrow> (1, 0))"

definition sort_by_mean_desc :: "(cell \<times> cell \<times> nat) list \<Rightarrow> (cell \<times> cell \<times> nat) list" where
  "sort_by_mean_desc rows = sort_key (\<lambda>r. desc_rank (fst (snd r))) rows"

definition count_cell :: "nat \<Rightarrow> cell" where
  "count_cell n = Num (of_nat n)"

definition grouped_frame ::
  "string \<Rightarrow> string \<Rightarrow> (cell \<times> cell \<times> nat) list \<Rightarrow> dataframe" where
  "grouped_frame group_column mean_name rows =
     \<lparr>nrows = length rows,
      cols = [(group_column, map fst rows),
              (mean_name, map (\<lambda>r. fst (snd r)) rows),
              (''Count'', map (\<lambda>r. count_cell (snd (snd r))) rows)]\<rparr>"

text \<open>\<^verbatim>\<open>pd.DataFrame()\<close>: no rows and no columns.\<close>

definition empty_frame :: dataframe where
  "empty_frame = \<lparr>nrows = 0, cols = []\<rparr>"

definition get_satisfaction_by_group :: "dataframe \<Rightarrow> string \<Rightarrow> error + dataframe" where
  "get_satisfaction_by_group df group_column =
     bind_err (getitem df satisfaction_col) (\<lambda>rating.
       let df_valid = mask_rows (map notna rating) df
       in if nrows df_valid = 0 then Inr empty_frame
          else bind_err (getitem df_valid group_column) (\<lambda>keys.
               bind_err (getitem df_valid satisfaction_col) (\<lambda>vals.
               bind_err (agg_mean_count keys vals) (\<lambda>grouped.
                 Inr (grouped_frame group_column ''Average Satisfaction''
                        (sort_by_mean_desc grouped))))))"

text \<open>
  \<^verbatim>\<open>series.value_counts(dropna=False)\<close>: every distinct value, null included, with the
  number of its occurrences, most frequent first; equal counts keep the order of first
  occurrence.
\<close>

definition value_counts :: "cell list \<Rightarrow> (cell \<times> nat) list" where
  "value_counts xs =
     sort_key (\<lambda>r. - int (snd r)) (map (\<lambda>k. (k, count_list xs k)) (unique xs))"

definition get_volume_by_group :: "dataframe \<Rightarrow> string \<Rightarrow> error + dataframe" where
  "get_volume_by_group df group_column =
     bind_err (getitem df group_column) (\<lambda>c.
       let volume = value_counts c
       in Inr \<lparr>nrows = length volume,
               cols = [(group_column, map fst volume),
                       (''Count'', map (\<lambda>r. count_cell (snd r)) volume)]\<rparr>)"

section \<open>A sample table\<close>

text \<open>
  Two small parsers for concrete evaluations: numbers and timestamps that are already
  typed pass through, and a few strings are known.
\<close>

definition sample_numeric :: numeric_parser where
  "sample_numeric c =
     (case c of Num r \<Rightarrow> Some r
      | Str s \<Rightarrow> map_of [(''3'', 3), (''4'', 4), (''5'', 5)] s
      | _ \<Rightarrow> None)"

definition sample_datetime :: datetime_parser where
  "sample_datetime column c =
     (case c of Ts t \<Rightarrow> Some t
      | Str s \<Rightarrow> map_of [(''1970-01-01'', 0),
                         (''1970-01-02'', 86400000000000),
                         (''1970-01-03'', 172800000000000),
                         (''1970-01-01 00:00:00'', 0),
                         (''1970-01-01 01:00:00'', 3600000000000),
                         (''1970-01-01 02:30:00'', 9000000000000)] s
      | _ \<Rightarrow> None)"

definition raw_tickets :: dataframe where
  "raw_tickets =
     \<lparr>nrows = 4,
      cols = [(''Ticket ID'', [Num 1, Num 2, Num 3, Num 4]),
              (product_col, [Str ''Phone'', Str ''Phone'', Str ''Laptop'', NA]),
              (priority_col, [Str ''High'', Str ''High'', Str ''Low'', NA]),
              (status_col, [Str ''Open'', Str ''Closed'', Str ''open'', Str ''Open'']),
              (channel_col, [Str ''Email'', Str ''Chat'', Str ''Email'', Str ''Chat'']),
              (purchase_col,
                 [Str ''1970-01-01'', Str ''1970-01-02'', Str ''1970-01-03'', Str ''unknown'']),
              (response_col,
                 [Str ''1970-01-01 00:00:00'', Str ''1970-01-01 02:30:00'',
                  Str ''1970-01-01 01:00:00'', Str ''soon'']),
              (resolution_col,
                 [Str ''1970-01-01 02:30:00'', Str ''1970-01-01 01:00:00'',
                  Str ''1970-01-01 01:00:00'', Str ''1970-01-01 02:30:00'']),
              (satisfaction_col, [Str ''5'', Str ''3'', Str ''4'', Str ''n/a''])]\<rparr>"

text \<open>The sample table after cleaning with the sample parsers.\<close>

definition cleaned_tickets :: dataframe where
  "cleaned_tickets =
     \<lparr>nrows = 4,
      cols = [(''Ticket ID'', [Num 1, Num 2, Num 3, Num 4]),
              (product_col, [Str ''Phone'', Str ''Phone'', Str ''Laptop'', NA]),
              (priority_col, [Str ''High'', Str ''High'', Str ''Low'', NA]),
              (status_col, [Str ''Open'', Str ''Closed'', Str ''open'', Str ''Open'']),
              (channel_col, [Str ''Email'', Str ''Chat'', Str ''Email'', Str ''Chat'']),
              (purchase_col, [Ts 0, Ts 86400000000000, Ts 172800000000000, NA]),
              (response_col, [Ts 0, Ts 9000000000000, Ts 3600000000000, NA]),
              (resolution_col, [Num (5 / 2), NA, NA, NA]),
              (satisfaction_col, [Num 5, Num 3, Num 4, NA]),
              (resolution_ts_col,
                 [Ts 9000000000000, Ts 3600000000000, Ts 3600000000000,
                  Ts 9000000000000])]\<rparr>"

text \<open>
  A table of priorities and ratings whose groups have different means, one of them the
  null group, and whose last row has no rating.
\<close>

definition rated_tickets :: dataframe where
  "rated_tickets =
     \<lparr>nrows = 6,
      cols = [(priority_col,
                 [Str ''High'', Str ''Low'', Str ''High'', NA, Str ''Low'', Str ''Low'']),
              (satisfaction_col, [Num 1, Num 5, Num 2, Num 3, Num 4, NA])]\<rparr>"

section \<open>Facts about tables\<close>

lemmas col_name_defs =
  satisfaction_col_def purchase_col_def response_col_def resolution_col_def
  resolution_ts_col_def priority_col_def channel_col_def status_col_def product_col_def

lemma col_names_distinct [simp]:
  "resolution_col \<noteq> response_col" "response_col \<noteq> resolution_col"
  "resolution_col \<noteq> purchase_col" "purchase_col \<noteq> resolution_col"
  "resolution_col \<noteq> satisfaction_col" "satisfaction_col \<noteq> resolution_col"
  "resolution_col \<noteq> resolution_ts_col" "resolution_ts_col \<noteq> resolution_col"
  "response_col \<noteq> purchase_col" "purchase_col \<noteq> response_col"
  "response_col \<noteq> satisfaction_col" "satisfaction_col \<noteq> response_col"
  "response_col \<noteq> resolution_ts_col" "resolution_ts_col \<noteq> response_col"
  "purchase_col \<noteq> satisfaction_col" "satisfaction_col \<noteq> purchase_col"
  "purchase_col \<noteq> resolution_ts_col" "resolution_ts_col \<noteq> purchase_col"
  "satisfaction_col \<noteq> resolution_ts_col" "resolution_ts_col \<noteq> satisfaction_col"
  by (simp_all add: col_name_defs)

lemma map_of_setitem [simp]:
  "map_of (cols (setitem df name c)) = (map_of (cols df))(name \<mapsto> c)"
  by (simp add: setitem_def update_conv')

lemma nrows_setitem [simp]: "nrows (setitem df name c) = nrows df"
  by (simp add: setitem_def)

lemma names_setitem:
  "map fst (cols (setitem df name c)) =
     (if has_col df name then map fst (cols df) else map fst (cols df) @ [name])"
  by (simp add: setitem_def has_col_def update_keys)

lemma has_col_map_of: "has_col df name \<longleftrightarrow> map_of (cols df) name \<noteq> None"
  by (simp add: has_col_def map_of_eq_None_iff)

lemma getitem_Inr_iff: "getitem df name = Inr c \<longleftrightarrow> map_of (cols df) name = Some c"
  by (simp add: getitem_def split: option.splits)

lemma getitem_Inl_iff:
  "getitem df name = Inl e \<longleftrightarrow> e = KeyError \<and> map_of (cols df) name = None"
  by (auto simp add: getitem_def split: option.splits)

lemma wf_col_length:
  assumes wf: "wf_df df" and m: "map_of (cols df) name = Some c"
  shows "length c = nrows df"
proof -
  from m have "(name, c) \<in> set (cols df)" by (rule map_of_SomeD)
  with wf have "length (snd (name, c)) = nrows df"
    unfolding wf_df_def list_all_iff by blast
  then show ?thesis by simp
qed

section \<open>Cleaning: the derived resolution duration\<close>

lemma map_of_clean_datetime_col:
  "map_of (cols (clean_datetime_col dt name df)) =
     (case map_of (cols df) name of None \<Rightarrow> map_of (cols df)
      | Some c \<Rightarrow> (map_of (cols df))(name \<mapsto> pd_to_datetime dt c))"
  by (simp add: clean_datetime_col_def split: option.splits)

lemma nrows_clean_datetime_col [simp]: "nrows (clean_datetime_col dt name df) = nrows df"
  by (simp add: clean_datetime_col_def split: option.splits)

lemma names_clean_datetime_col [simp]:
  "map fst (cols (clean_datetime_col dt name df)) = map fst (cols df)"
  by (auto simp: clean_datetime_col_def names_setitem has_col_map_of split: option.splits)

lemma clean_data_resolution:
  assumes "clean_data num dt df = Inr out"
    and "map_of (cols df) resolution_col = Some raw"
  shows "map_of (cols out) resolution_col =
           Some (derived_hours dt raw (map_of (cols df) response_col) (nrows df))"
    and "map_of (cols out) resolution_ts_col = Some (pd_to_datetime dt raw)"
  using assms
  by (auto simp: clean_data_def clean_satisfaction_def getitem_def derive_resolution_def
      map_of_clean_datetime_col derived_hours_def setitem_scalar_def Let_def
      split: option.splits sum.splits)


lemma hours_le_zero_iff: "le_zero (hours_of (Some d)) \<longleftrightarrow> d \<le> 0"
  by (simp add: hours_of_def total_seconds_def divide_le_0_iff)

lemma derived_cell_cases:
  assumes "c \<in> set (derived_hours dt raw first n)"
  shows "c = NA \<or> (\<exists>h. c = Num h \<and> 0 < h)"
proof (cases first)
  case None
  with assms show ?thesis by (simp add: derived_hours_def)
next
  case (Some fr)
  with assms have "c \<in> (\<lambda>d. if le_zero (hours_of d) then NA else hours_of d) `
      set (series_sub (pd_to_datetime dt raw) (pd_to_datetime dt fr))"
    by (simp add: derived_hours_def null_where_le_zero_def image_image)
  then obtain d where c: "c = (if le_zero (hours_of d) then NA else hours_of d)"
    by blast
  show ?thesis
  proof (cases d)
    case None
    with c show ?thesis by (simp add: hours_of_def)
  next
    case (Some ns)
    define h where "h = total_seconds ns / 3600"
    from c Some have "c = (if h \<le> 0 then NA else Num h)"
      by (simp add: hours_of_def h_def)
    then show ?thesis by (cases "h \<le> 0") auto
  qed
qed

lemma derived_hours_nth:
  assumes "i < length raw" "i < length fr"
  shows "derived_hours dt raw (Some fr) n ! i =
     (case (coerce_datetime dt raw (raw ! i), coerce_datetime dt fr (fr ! i)) of
        (Some r, Some f) \<Rightarrow> if 0 < r - f then Num (of_int (r - f) / 1000000000 / 3600) else NA
      | _ \<Rightarrow> NA)"
  using assms
  by (auto simp: derived_hours_def null_where_le_zero_def series_sub_def pd_to_datetime_def
      hours_le_zero_iff split: option.splits)
     (auto simp: hours_of_def total_seconds_def)

lemma length_derived_hours:
  "length (derived_hours dt raw (Some fr) n) = min (length raw) (length fr)"
  "length (derived_hours dt raw None n) = n"
  by (simp_all add: derived_hours_def null_where_le_zero_def series_sub_def pd_to_datetime_def)

lemma clean_sample:
  "clean_data sample_numeric sample_datetime raw_tickets = Inr cleaned_tickets"
  by (simp add: clean_data_def clean_satisfaction_def clean_datetime_col_def
      derive_resolution_def getitem_def setitem_def raw_tickets_def cleaned_tickets_def
      col_name_defs pd_to_numeric_def pd_to_datetime_def coerce_datetime_def
      sample_numeric_def sample_datetime_def series_sub_def hours_of_def total_seconds_def
      null_where_le_zero_def)

lemma wf_raw_tickets: "wf_df raw_tickets"
  by (simp add: wf_df_def raw_tickets_def)

lemma wf_cleaned_tickets: "wf_df cleaned_tickets"
  by (simp add: wf_df_def cleaned_tickets_def)

text \<open>
  C1. On a table that \<open>clean_data\<close> accepts and that has the raw resolution column, take
  any row \<open>i\<close>. If the table has the first-response column and both raw cells of the row
  parse, to \<open>r\<close> and \<open>f\<close>, the derived duration of the row is \<open>r - f\<close> in hours when
  that is strictly positive and null otherwise. If the first-response cell is null or does
  not parse, or the table has no first-response column, the derived duration is null.
\<close>

theorem clean_data_resolution_duration:
  assumes "wf_df df" and "clean_data num dt df = Inr out"
    and "getitem df resolution_col = Inr raw" and "i < nrows df"
  shows "(\<forall>fr r f. getitem df response_col = Inr fr
             \<and> coerce_datetime dt raw (raw ! i) = Some r
             \<and> coerce_datetime dt fr (fr ! i) = Some f \<longrightarrow>
           cell_at out resolution_col i =
             Some (if 0 < r - f then Num (of_int (r - f) / 1000000000 / 3600) else NA))
       \<and> (\<forall>fr. getitem df response_col = Inr fr
             \<and> coerce_datetime dt fr (fr ! i) = None \<longrightarrow>
           cell_at out resolution_col i = Some NA)
       \<and> (getitem df response_col = Inl KeyError \<longrightarrow>
           cell_at out resolution_col i = Some NA)"
proof -
  from assms(3) have raw: "map_of (cols df) resolution_col = Some raw"
    by (simp add: getitem_Inr_iff)
  with assms(1) have len_raw: "length raw = nrows df" by (rule wf_col_length)
  note res = clean_data_resolution(1) [OF assms(2) raw]
  have present: "cell_at out resolution_col i =
      Some (derived_hours dt raw (Some fr) (nrows df) ! i)"
    if "getitem df response_col = Inr fr" for fr
  proof -
    from that have fr: "map_of (cols df) response_col = Some fr"
      by (simp add: getitem_Inr_iff)
    with assms(1) have "length fr = nrows df" by (rule wf_col_length)
    with len_raw assms(4) res fr show ?thesis
      by (simp add: cell_at_def length_derived_hours)
  qed
  have nth: "derived_hours dt raw (Some fr) (nrows df) ! i =
     (case (coerce_datetime dt raw (raw ! i), coerce_datetime dt fr (fr ! i)) of
        (Some r, Some f) \<Rightarrow> if 0 < r - f then Num (of_int (r - f) / 1000000000 / 3600) else NA
      | _ \<Rightarrow> NA)"
    if "getitem df response_col = Inr fr" for fr
  proof -
    from that have fr: "map_of (cols df) response_col = Some fr"
      by (simp add: getitem_Inr_iff)
    with assms(1) have "length fr = nrows df" by (rule wf_col_length)
    with len_raw assms(4) show ?thesis by (intro derived_hours_nth) simp_all
  qed
  have absent: "cell_at out resolution_col i = Some NA"
    if "getitem df response_col = Inl KeyError"
  proof -
    from that have "map_of (cols df) response_col = None"
      by (simp add: getitem_Inl_iff)
    with res assms(4) show ?thesis
      by (simp add: cell_at_def derived_hours_def)
  qed
  show ?thesis
    using present nth absent by (auto split: option.splits)
qed

text \<open>
  On the sample table: 2.5 hours in the first row, null in the second (resolution before
  first response) and null in the fourth (first response unparseable).
\<close>

theorem clean_data_resolution_duration_witness:
  "wf_df raw_tickets
   \<and> clean_data sample_numeric sample_datetime raw_tickets = Inr cleaned_tickets
   \<and> cell_at cleaned_tickets resolution_col 0 = Some (Num (5 / 2))
   \<and> cell_at cleaned_tickets resolution_col 1 = Some NA
   \<and> cell_at cleaned_tickets resolution_col 3 = Some NA"
proof -
  have raw: "getitem raw_tickets resolution_col =
      Inr [Str ''1970-01-01 02:30:00'', Str ''1970-01-01 01:00:00'',
           Str ''1970-01-01 01:00:00'', Str ''1970-01-01 02:30:00'']"
    by (simp add: getitem_def raw_tickets_def col_name_defs)
  have fr: "getitem raw_tickets response_col =
      Inr [Str ''1970-01-01 00:00:00'', Str ''1970-01-01 02:30:00'',
           Str ''1970-01-01 01:00:00'', Str ''soon'']"
    by (simp add: getitem_def raw_tickets_def col_name_defs)
  have n: "0 < nrows raw_tickets" "1 < nrows raw_tickets" "3 < nrows raw_tickets"
    by (simp_all add: raw_tickets_def)
  note dur = clean_data_resolution_duration [OF wf_raw_tickets clean_sample raw]
  from dur [OF n(1)] fr
  have "cell_at cleaned_tickets resolution_col 0 = Some (Num (5 / 2))"
    by (simp add: coerce_datetime_def sample_datetime_def)
  moreover from dur [OF n(2)] fr
  have "cell_at cleaned_tickets resolution_col 1 = Some NA"
    by (simp add: coerce_datetime_def sample_datetime_def)
  moreover from dur [OF n(3)] fr
  have "cell_at cleaned_tickets resolution_col 3 = Some NA"
    by (simp add: coerce_datetime_def sample_datetime_def)
  ultimately show ?thesis
    using wf_raw_tickets clean_sample by simp
qed

text \<open>
  C4. Whenever \<open>clean_data\<close> returns a table for an input with the raw resolution column
  (with or without the first-response column), every cell of the derived duration column
  is null or a number strictly greater than zero.
\<close>

theorem clean_data_duration_null_or_positive:
  assumes "clean_data num dt df = Inr out" and "has_col df resolution_col"
  shows "\<exists>d. getitem out resolution_col = Inr d
           \<and> (\<forall>c \<in> set d. c = NA \<or> (\<exists>h. c = Num h \<and> 0 < h))"
proof -
  from assms(2) obtain raw where raw: "map_of (cols df) resolution_col = Some raw"
    by (auto simp: has_col_map_of)
  from clean_data_resolution(1) [OF assms(1) raw]
  have "getitem out resolution_col =
      Inr (derived_hours dt raw (map_of (cols df) response_col) (nrows df))"
    by (simp add: getitem_Inr_iff)
  then show ?thesis
    by (blast dest: derived_cell_cases)
qed

text \<open>The sample table has both raw columns; its derived column is 2.5 and three nulls.\<close>

theorem clean_data_duration_null_or_positive_witness:
  "has_col raw_tickets resolution_col \<and> has_col raw_tickets response_col
   \<and> clean_data sample_numeric sample_datetime raw_tickets = Inr cleaned_tickets
   \<and> getitem cleaned_tickets resolution_col = Inr [Num (5 / 2), NA, NA, NA]"
proof -
  have h: "has_col raw_tickets resolution_col" "has_col raw_tickets response_col"
    by (simp_all add: has_col_def raw_tickets_def)
  from clean_data_duration_null_or_positive [OF clean_sample h(1)] h clean_sample
  show ?thesis
    by (simp add: getitem_def cleaned_tickets_def col_name_defs)
qed



section \<open>Cleaning: the satisfaction column is read unguarded\<close>

text \<open>
  C2. The claim is that every cleaning step tolerates a missing source column, the
  coercion of the satisfaction rating in particular. On a table that has only a
  ticket-id column, \<open>clean_data\<close> raises KeyError at its first statement.
\<close>

theorem clean_data_missing_satisfaction_raises:
  "clean_data sample_numeric sample_datetime
     \<lparr>nrows = 1, cols = [(''Ticket ID'', [Num 1])]\<rparr> = Inl KeyError"
  by (simp add: clean_data_def clean_satisfaction_def getitem_def satisfaction_col_def)

section \<open>Filtering: rows kept by a mask\<close>

lemma select_map_filter: "select (map P xs) xs = filter P xs"
  by (induction xs) (simp_all add: select_def)

lemma map_of_mask_rows:
  "map_of (cols (mask_rows m df)) name = map_option (select m) (map_of (cols df) name)"
proof -
  have "map_of (map (\<lambda>(n, c). (n, select m c)) al) name = map_option (select m) (map_of al name)"
    for al :: "(string \<times> cell list) list"
    by (induction al) auto
  then show ?thesis by (simp add: mask_rows_def)
qed

lemma nrows_mask_rows_map: "nrows (mask_rows (map P xs) df) = length (filter P xs)"
  by (simp add: mask_rows_def filter_map comp_def)

lemma isin_filter_unconstrained: "unconstrained allowed \<Longrightarrow> isin_filter name allowed df = Inr df"
  by (simp add: unconstrained_def isin_filter_def split: option.splits)

lemma filter_data_no_constraint:
  assumes "unconstrained priorities" "unconstrained channels"
    "unconstrained statuses" "unconstrained products"
  shows "filter_data df None priorities channels statuses products = Inr df"
  using assms
  by (simp add: filter_data_def date_filter_def bind_err_def isin_filter_unconstrained)

lemma filter_data_date_step:
  "filter_data df date_range ps cs ss prs =
     bind_err (date_filter date_range df) (\<lambda>d. filter_data d None ps cs ss prs)"
  by (simp add: filter_data_def date_filter_def bind_err_def split: sum.splits)

lemma in_range_iff: "in_range s e x \<longleftrightarrow> (\<exists>t. x = Ts t \<and> s \<le> t \<and> t \<le> e)"
  by (cases x) (simp_all add: in_range_def)

text \<open>
  C3. The claim is that \<open>filter_data\<close> never raises and skips the predicate of a dimension
  whose column is absent. Only the date filter tests for its column. On a table that has
  the channel column and no priority column, with both allow-lists set, the priority
  filter raises KeyError where the claim has it skipped and the channel filter applied.
\<close>

theorem filter_data_missing_priority_raises:
  "filter_data
     \<lparr>nrows = 2, cols = [(''Ticket ID'', [Num 1, Num 2]),
                          (channel_col, [Str ''Email'', Str ''Chat''])]\<rparr>
     None (Some [Str ''High'']) (Some [Str ''Email'']) None None = Inl KeyError"
  by (simp add: filter_data_def date_filter_def isin_filter_def bind_err_def getitem_def
      col_name_defs)

text \<open>
  C5. With no date range and every allow-list omitted or empty, \<open>filter_data\<close> returns its
  input unchanged, whatever columns the table has.
\<close>

theorem filter_data_unconstrained:
  assumes "unconstrained priorities" and "unconstrained channels"
    and "unconstrained statuses" and "unconstrained products"
  shows "filter_data df None priorities channels statuses products = Inr df"
  using assms by (rule filter_data_no_constraint)

text \<open>
  On the cleaned sample table, with two allow-lists empty and two omitted.
\<close>

theorem filter_data_unconstrained_witness:
  "unconstrained (Some []) \<and> unconstrained None
   \<and> filter_data cleaned_tickets None (Some []) None (Some []) None = Inr cleaned_tickets"
proof -
  have a: "unconstrained (Some [])" and b: "unconstrained None"
    by (simp_all add: unconstrained_def)
  from filter_data_unconstrained [OF a b a b, of cleaned_tickets] a b show ?thesis by simp
qed

lemma upt_0_Suc_Cons: "[0..<Suc n] = 0 # map Suc [0..<n]"
  by (simp only: upt_conv_Cons [OF zero_less_Suc] map_Suc_upt)

lemma select_map_nth:
  "length c = length col \<Longrightarrow>
     select (map P c) col = map ((!) col) (filter (\<lambda>i. P (c ! i)) [0..<length col])"
proof (induction c col rule: list_induct2)
  case Nil
  then show ?case by (simp add: select_def)
next
  case (Cons x xs y ys)
  have step: "select (map P (x # xs)) (y # ys) =
      (if P x then y # select (map P xs) ys else select (map P xs) ys)"
    by (simp add: select_def)
  have idx: "map ((!) (y # ys)) (filter (\<lambda>i. P ((x # xs) ! i)) (map Suc [0..<length ys])) =
      map ((!) ys) (filter (\<lambda>i. P (xs ! i)) [0..<length ys])"
    by (simp add: filter_map comp_def)
  show ?case
    unfolding step length_Cons upt_0_Suc_Cons
    using Cons.IH idx by simp
qed

lemma length_filter_nth:
  "length (filter P c) = length (filter (\<lambda>i. P (c ! i)) [0..<length c])"
proof -
  have "length (select (map P c) c) =
      length (map ((!) c) (filter (\<lambda>i. P (c ! i)) [0..<length c]))"
    by (simp only: select_map_nth [OF refl])
  then show ?thesis by (simp add: select_map_filter)
qed

lemma mask_rows_by_index:
  assumes wf: "wf_df df" and len: "length c = nrows df"
  shows "mask_rows (map P c) df =
     \<lparr>nrows = length (filter (\<lambda>i. P (c ! i)) [0..<nrows df]),
      cols = map (\<lambda>(n, col). (n, map ((!) col) (filter (\<lambda>i. P (c ! i)) [0..<nrows df])))
               (cols df)\<rparr>"
proof -
  have n: "length (filter id (map P c)) = length (filter (\<lambda>i. P (c ! i)) [0..<nrows df])"
    using length_filter_nth [of P c] len by (simp add: filter_map comp_def)
  have c: "select (map P c) col = map ((!) col) (filter (\<lambda>i. P (c ! i)) [0..<nrows df])"
    if "(name, col) \<in> set (cols df)" for name col
  proof -
    from wf that have "length (snd (name, col)) = nrows df"
      unfolding wf_df_def list_all_iff by blast
    with len show ?thesis by (simp add: select_map_nth)
  qed
  have "map (\<lambda>(n, col). (n, select (map P c) col)) (cols df) =
      map (\<lambda>(n, col). (n, map ((!) col) (filter (\<lambda>i. P (c ! i)) [0..<nrows df]))) (cols df)"
    by (rule map_cong) (auto simp: c)
  with n show ?thesis by (simp add: mask_rows_def)
qed

text \<open>
  C6. Take a table with a purchase-date column \<open>c\<close> of timestamps and nulls, as
  \<open>clean_data\<close> leaves it, and a range. Let \<open>keep\<close> be the row numbers \<open>i\<close> whose purchase
  date \<open>c ! i\<close> is a timestamp \<open>t\<close> with \<open>start_date \<le> t \<le> end_date\<close>, in order, and \<open>kept\<close>
  the table with as many rows as \<open>keep\<close> has elements and with every column of the input
  read at the row numbers of \<open>keep\<close>. Then \<open>filter_data\<close> with the range and no allow-list
  returns \<open>kept\<close>, with allow-lists it goes on from \<open>kept\<close> as it does without a range, and
  no row with a null purchase date is in \<open>keep\<close>. When the table has no purchase-date
  column, a range changes nothing. Without a range and without allow-lists the input is
  returned whole, rows with a null purchase date included.
\<close>

theorem filter_data_date_range:
  "(\<forall>c keep kept.
       wf_df df \<and> getitem df purchase_col = Inr c \<and> list_all comparable_ts c
       \<and> keep = filter (\<lambda>i. \<exists>t. c ! i = Ts t \<and> start_date \<le> t \<and> t \<le> end_date)
                  [0..<nrows df]
       \<and> kept = \<lparr>nrows = length keep,
                  cols = map (\<lambda>(name, col). (name, map ((!) col) keep)) (cols df)\<rparr> \<longrightarrow>
       filter_data df (Some (start_date, end_date)) None None None None = Inr kept
       \<and> filter_data df (Some (start_date, end_date)) ps cs ss prs =
           filter_data kept None ps cs ss prs
       \<and> (\<forall>i < nrows df. c ! i = NA \<longrightarrow> i \<notin> set keep))
   \<and> (\<not> has_col df purchase_col \<longrightarrow>
        filter_data df (Some (start_date, end_date)) None None None None = Inr df
        \<and> filter_data df (Some (start_date, end_date)) ps cs ss prs =
            filter_data df None ps cs ss prs)
   \<and> filter_data df None None None None None = Inr df"
proof -
  let ?P = "\<lambda>x. \<exists>t. x = Ts t \<and> start_date \<le> t \<and> t \<le> end_date"
  have eq: "in_range start_date end_date = ?P"
    by (simp add: in_range_iff fun_eq_iff)
  have none: "filter_data d None None None None None = Inr d" for d
    by (simp add: filter_data_no_constraint unconstrained_def)
  have active: "filter_data df (Some (start_date, end_date)) None None None None = Inr kept
       \<and> filter_data df (Some (start_date, end_date)) ps cs ss prs =
           filter_data kept None ps cs ss prs
       \<and> (\<forall>i < nrows df. c ! i = NA \<longrightarrow> i \<notin> set keep)"
    if wf: "wf_df df" and c: "getitem df purchase_col = Inr c" and t: "list_all comparable_ts c"
      and keep: "keep = filter (\<lambda>i. ?P (c ! i)) [0..<nrows df]"
      and kept: "kept = \<lparr>nrows = length keep,
                  cols = map (\<lambda>(name, col). (name, map ((!) col) keep)) (cols df)\<rparr>"
    for c keep kept
  proof -
    from wf c have len: "length c = nrows df"
      by (simp add: getitem_Inr_iff wf_col_length)
    have m: "mask_rows (map (in_range start_date end_date) c) df = kept"
      unfolding eq kept keep by (rule mask_rows_by_index [OF wf len])
    have step: "filter_data df (Some (start_date, end_date)) qs1 qs2 qs3 qs4 =
        filter_data kept None qs1 qs2 qs3 qs4" for qs1 qs2 qs3 qs4
      using c t m
      by (simp add: filter_data_date_step [of df "Some (start_date, end_date)"]
          date_filter_def getitem_Inr_iff bind_err_def)
    have "\<forall>i < nrows df. c ! i = NA \<longrightarrow> i \<notin> set keep"
      by (simp add: keep)
    with step [of None None None None] step [of ps cs ss prs] none [of kept]
    show ?thesis by simp
  qed
  have inactive: "filter_data df (Some (start_date, end_date)) qs1 qs2 qs3 qs4 =
          filter_data df None qs1 qs2 qs3 qs4"
    if "\<not> has_col df purchase_col" for qs1 qs2 qs3 qs4
    using that
    by (simp add: filter_data_date_step [of df "Some (start_date, end_date)"]
        date_filter_def has_col_map_of bind_err_def)
  show ?thesis
  proof (intro conjI)
    show "\<forall>c keep kept.
       wf_df df \<and> getitem df purchase_col = Inr c \<and> list_all comparable_ts c
       \<and> keep = filter (\<lambda>i. \<exists>t. c ! i = Ts t \<and> start_date \<le> t \<and> t \<le> end_date)
                  [0..<nrows df]
       \<and> kept = \<lparr>nrows = length keep,
                  cols = map (\<lambda>(name, col). (name, map ((!) col) keep)) (cols df)\<rparr> \<longrightarrow>
       filter_data df (Some (start_date, end_date)) None None None None = Inr kept
       \<and> filter_data df (Some (start_date, end_date)) ps cs ss prs =
           filter_data kept None ps cs ss prs
       \<and> (\<forall>i < nrows df. c ! i = NA \<longrightarrow> i \<notin> set keep)"
    proof (intro allI impI, elim conjE)
      fix c keep kept
      assume "wf_df df" "getitem df purchase_col = Inr c" "list_all comparable_ts c"
        "keep = filter (\<lambda>i. \<exists>t. c ! i = Ts t \<and> start_date \<le> t \<and> t \<le> end_date)
                  [0..<nrows df]"
        "kept = \<lparr>nrows = length keep,
                  cols = map (\<lambda>(name, col). (name, map ((!) col) keep)) (cols df)\<rparr>"
      then show "filter_data df (Some (start_date, end_date)) None None None None = Inr kept
       \<and> filter_data df (Some (start_date, end_date)) ps cs ss prs =
           filter_data kept None ps cs ss prs
       \<and> (\<forall>i < nrows df. c ! i = NA \<longrightarrow> i \<notin> set keep)"
        by (rule active)
    qed
    show "\<not> has_col df purchase_col \<longrightarrow>
        filter_data df (Some (start_date, end_date)) None None None None = Inr df
        \<and> filter_data df (Some (start_date, end_date)) ps cs ss prs =
            filter_data df None ps cs ss prs"
      using inactive [of None None None None] inactive [of ps cs ss prs] none [of df]
      by simp
    show "filter_data df None None None None None = Inr df"
      by (rule none)
  qed
qed

text \<open>
  On the cleaned sample table the range of the first two days keeps the first two rows
  of every column and drops the third row (too late) and the fourth (null date); a table
  with no purchase-date column is returned whole.
\<close>

theorem filter_data_date_range_witness:
  "wf_df cleaned_tickets
   \<and> getitem cleaned_tickets purchase_col = Inr [Ts 0, Ts 86400000000000, Ts 172800000000000, NA]
   \<and> list_all comparable_ts [Ts 0, Ts 86400000000000, Ts 172800000000000, NA]
   \<and> filter_data cleaned_tickets (Some (0, 86400000000000)) None None None None =
       Inr \<lparr>nrows = 2,
            cols = [(''Ticket ID'', [Num 1, Num 2]),
                    (product_col, [Str ''Phone'', Str ''Phone'']),
                    (priority_col, [Str ''High'', Str ''High'']),
                    (status_col, [Str ''Open'', Str ''Closed'']),
                    (channel_col, [Str ''Email'', Str ''Chat'']),
                    (purchase_col, [Ts 0, Ts 86400000000000]),
                    (response_col, [Ts 0, Ts 9000000000000]),
                    (resolution_col, [Num (5 / 2), NA]),
                    (satisfaction_col, [Num 5, Num 3]),
                    (resolution_ts_col, [Ts 9000000000000, Ts 3600000000000])]\<rparr>
   \<and> \<not> has_col \<lparr>nrows = 1, cols = [(''Ticket ID'', [Num 1])]\<rparr> purchase_col
   \<and> filter_data \<lparr>nrows = 1, cols = [(''Ticket ID'', [Num 1])]\<rparr>
         (Some (0, 86400000000000)) None None None None =
       Inr \<lparr>nrows = 1, cols = [(''Ticket ID'', [Num 1])]\<rparr>"
proof -
  let ?kept = "\<lparr>nrows = 2,
            cols = [(''Ticket ID'', [Num 1, Num 2]),
                    (product_col, [Str ''Phone'', Str ''Phone'']),
                    (priority_col, [Str ''High'', Str ''High'']),
                    (status_col, [Str ''Open'', Str ''Closed'']),
                    (channel_col, [Str ''Email'', Str ''Chat'']),
                    (purchase_col, [Ts 0, Ts 86400000000000]),
                    (response_col, [Ts 0, Ts 9000000000000]),
                    (resolution_col, [Num (5 / 2), NA]),
                    (satisfaction_col, [Num 5, Num 3]),
                    (resolution_ts_col, [Ts 9000000000000, Ts 3600000000000])]\<rparr>"
  have c: "getitem cleaned_tickets purchase_col =
      Inr [Ts 0, Ts 86400000000000, Ts 172800000000000, NA]"
    by (simp add: getitem_def cleaned_tickets_def col_name_defs)
  have t: "list_all comparable_ts [Ts 0, Ts 86400000000000, Ts 172800000000000, NA]"
    by simp
  have rows: "[0..<nrows cleaned_tickets] = [0, 1, 2, 3]"
    by (simp add: cleaned_tickets_def upt_rec)
  have keep: "[0, 1] =
      filter (\<lambda>i. \<exists>t. [Ts 0, Ts 86400000000000, Ts 172800000000000, NA] ! i = Ts t
                    \<and> 0 \<le> t \<and> t \<le> 86400000000000)
        [0..<nrows cleaned_tickets]"
    unfolding rows by simp
  have kept: "?kept = \<lparr>nrows = length [0::nat, 1],
      cols = map (\<lambda>(name, col). (name, map ((!) col) [0, 1])) (cols cleaned_tickets)\<rparr>"
    by (simp add: cleaned_tickets_def)
  have n: "\<not> has_col \<lparr>nrows = 1, cols = [(''Ticket ID'', [Num 1])]\<rparr> purchase_col"
    by (simp add: has_col_def col_name_defs)
  have pre: "wf_df cleaned_tickets
      \<and> getitem cleaned_tickets purchase_col =
          Inr [Ts 0, Ts 86400000000000, Ts 172800000000000, NA]
      \<and> list_all comparable_ts [Ts 0, Ts 86400000000000, Ts 172800000000000, NA]
      \<and> [0, 1] =
          filter (\<lambda>i. \<exists>t. [Ts 0, Ts 86400000000000, Ts 172800000000000, NA] ! i = Ts t
                    \<and> 0 \<le> t \<and> t \<le> 86400000000000)
            [0..<nrows cleaned_tickets]
      \<and> ?kept = \<lparr>nrows = length [0::nat, 1],
          cols = map (\<lambda>(name, col). (name, map ((!) col) [0, 1])) (cols cleaned_tickets)\<rparr>"
    by (intro conjI wf_cleaned_tickets c t keep kept)
  note range = filter_data_date_range
    [of cleaned_tickets 0 86400000000000 None None None None, THEN conjunct1, rule_format]
  have "filter_data cleaned_tickets (Some (0, 86400000000000)) None None None None = Inr ?kept"
    by (rule range [OF pre, THEN conjunct1])
  moreover
  note absent = filter_data_date_range
    [of "\<lparr>nrows = 1, cols = [(''Ticket ID'', [Num 1])]\<rparr>"
      0 86400000000000 None None None None, THEN conjunct2, THEN conjunct1, rule_format]
  have "filter_data \<lparr>nrows = 1, cols = [(''Ticket ID'', [Num 1])]\<rparr>
         (Some (0, 86400000000000)) None None None None =
       Inr \<lparr>nrows = 1, cols = [(''Ticket ID'', [Num 1])]\<rparr>"
    by (rule absent [OF n, THEN conjunct1])
  ultimately show ?thesis using wf_cleaned_tickets c t n by simp
qed

section \<open>Key figures\<close>

lemma series_mean_Nil: "series_mean [] = Inr NA"
  by (simp add: series_mean_def mean_cell_def)

lemma count_status_eq:
  "getitem df status_col = Inr st \<Longrightarrow>
     count_status df s = Inr (length (filter (\<lambda>c. c = Str s) st))"
  by (auto simp: count_status_def bind_err_def nrows_mask_rows_map filter_empty_conv)

text \<open>
  C7. On a table with no rows that has the satisfaction, resolution and status columns,
  \<open>calculate_kpis\<close> returns zero tickets, null averages and zero open and closed tickets.
  Whenever \<open>calculate_kpis\<close> returns, its open and closed counts are the numbers of status
  cells equal to the strings \<open>Open\<close> and \<open>Closed\<close>, character for character.
\<close>

theorem calculate_kpis_empty_and_status:
  "(wf_df df \<and> nrows df = 0 \<and> has_col df satisfaction_col \<and> has_col df resolution_col
      \<and> has_col df status_col \<longrightarrow>
      calculate_kpis df =
        Inr \<lparr>total_tickets = 0, avg_satisfaction = NA, avg_resolution_time = NA,
             open_tickets = 0, closed_tickets = 0\<rparr>)
   \<and> (\<forall>k st. calculate_kpis df = Inr k \<and> getitem df status_col = Inr st \<longrightarrow>
        open_tickets k = length (filter (\<lambda>c. c = Str ''Open'') st)
        \<and> closed_tickets k = length (filter (\<lambda>c. c = Str ''Closed'') st))"
proof -
  have empty: "calculate_kpis df =
        Inr \<lparr>total_tickets = 0, avg_satisfaction = NA, avg_resolution_time = NA,
             open_tickets = 0, closed_tickets = 0\<rparr>"
    if wf: "wf_df df" and n: "nrows df = 0" and h: "has_col df satisfaction_col"
      "has_col df resolution_col" "has_col df status_col"
  proof -
    have nil: "map_of (cols df) name = Some []" if "has_col df name" for name
    proof -
      from that obtain c where c: "map_of (cols df) name = Some c"
        by (auto simp: has_col_map_of)
      with wf n have "length c = 0" by (simp add: wf_col_length)
      with c show ?thesis by simp
    qed
    from h have "getitem df satisfaction_col = Inr []" "getitem df resolution_col = Inr []"
      "getitem df status_col = Inr []"
      by (simp_all add: getitem_Inr_iff nil)
    then show ?thesis
      by (simp add: calculate_kpis_def bind_err_def series_mean_Nil count_status_eq n)
  qed
  have counts: "open_tickets k = length (filter (\<lambda>c. c = Str ''Open'') st)
        \<and> closed_tickets k = length (filter (\<lambda>c. c = Str ''Closed'') st)"
    if "calculate_kpis df = Inr k" "getitem df status_col = Inr st" for k st
    using that
    by (auto simp: calculate_kpis_def bind_err_def count_status_eq split: sum.splits)
  from empty counts show ?thesis by blast
qed

text \<open>
  The empty table with the three columns, and the cleaned sample table, whose status
  \<open>open\<close> in the third row is not counted as open.
\<close>

theorem calculate_kpis_empty_and_status_witness:
  "calculate_kpis \<lparr>nrows = 0, cols = [(satisfaction_col, []), (resolution_col, []),
                                       (status_col, [])]\<rparr> =
     Inr \<lparr>total_tickets = 0, avg_satisfaction = NA, avg_resolution_time = NA,
          open_tickets = 0, closed_tickets = 0\<rparr>
   \<and> calculate_kpis cleaned_tickets =
       Inr \<lparr>total_tickets = 4, avg_satisfaction = Num 4, avg_resolution_time = Num (5 / 2),
            open_tickets = 2, closed_tickets = 1\<rparr>
   \<and> getitem cleaned_tickets status_col =
       Inr [Str ''Open'', Str ''Closed'', Str ''open'', Str ''Open'']"
proof -
  let ?e = "\<lparr>nrows = 0, cols = [(satisfaction_col, []), (resolution_col, []),
                                 (status_col, [])]\<rparr>"
  have e: "wf_df ?e \<and> nrows ?e = 0 \<and> has_col ?e satisfaction_col \<and> has_col ?e resolution_col
      \<and> has_col ?e status_col"
    by (simp add: wf_df_def has_col_def)
  have k: "calculate_kpis cleaned_tickets =
       Inr \<lparr>total_tickets = 4, avg_satisfaction = Num 4, avg_resolution_time = Num (5 / 2),
            open_tickets = 2, closed_tickets = 1\<rparr>"
    by (simp add: calculate_kpis_def bind_err_def getitem_def cleaned_tickets_def
        col_name_defs series_mean_def mean_cell_def count_status_def mask_rows_def)
  have st: "getitem cleaned_tickets status_col =
       Inr [Str ''Open'', Str ''Closed'', Str ''open'', Str ''Open'']"
    by (simp add: getitem_def cleaned_tickets_def col_name_defs)
  from calculate_kpis_empty_and_status [of ?e] e
    calculate_kpis_empty_and_status [of cleaned_tickets] k st
  show ?thesis by simp
qed

section \<open>Ticket volume by group\<close>

lemma set_unique [simp]: "set (unique xs) = set xs"
  by (simp add: unique_def)

lemma distinct_unique [simp]: "distinct (unique xs)"
  by (simp add: unique_def)

lemma sum_list_insort_key:
  "sum_list (map f (insort_key g x xs)) = f x + sum_list (map f xs)"
  for f :: "'a \<Rightarrow> nat"
  by (induction xs) simp_all

lemma sum_list_sort_key:
  "sum_list (map f (sort_key g xs)) = sum_list (map f xs)"
  for f :: "'a \<Rightarrow> nat"
  by (induction xs) (simp_all add: sum_list_insort_key)

lemma sum_counts_distinct:
  assumes "distinct ks" and "set ks = set xs"
  shows "sum_list (map (count_list xs) ks) = length xs"
proof -
  from assms(1) have "sum_list (map (count_list xs) ks) = sum (count_list xs) (set ks)"
    by (rule sum_list_distinct_conv_sum_set)
  also have "\<dots> = length xs"
    using assms(2) by (simp add: sum_count_set)
  finally show ?thesis .
qed

lemma sorted_desc_of_neg:
  "sorted (map (\<lambda>r. - int (f r)) rows) \<Longrightarrow> sorted_wrt (\<ge>) (map f rows)"
  by (induction rows) auto

lemma value_counts_rows:
  "r \<in> set (value_counts xs) \<Longrightarrow> fst r \<in> set xs \<and> snd r = count_list xs (fst r)"
  by (auto simp: value_counts_def)

lemma value_counts_keys:
  "distinct (map fst (value_counts xs))" "set (map fst (value_counts xs)) = set xs"
proof -
  have d: "distinct (map (\<lambda>k. (k, count_list xs k)) (unique xs))"
    by (simp add: distinct_map inj_on_def)
  have i: "inj_on fst (set (map (\<lambda>k. (k, count_list xs k)) (unique xs)))"
    by (auto simp: inj_on_def)
  show "distinct (map fst (value_counts xs))"
    unfolding value_counts_def distinct_map using d i by simp
  show "set (map fst (value_counts xs)) = set xs"
    by (force simp: value_counts_def)
qed

lemma value_counts_sum: "sum_list (map snd (value_counts xs)) = length xs"
proof -
  have "sum_list (map snd (value_counts xs)) = sum_list (map (count_list xs) (unique xs))"
    by (simp add: value_counts_def sum_list_sort_key comp_def)
  also have "\<dots> = length xs"
    by (rule sum_counts_distinct) simp_all
  finally show ?thesis .
qed

lemma value_counts_sorted: "sorted_wrt (\<ge>) (map snd (value_counts xs))"
proof -
  have "sorted (map (\<lambda>r. - int (snd r)) (value_counts xs))"
    unfolding value_counts_def by (rule sorted_sort_key)
  then show ?thesis by (rule sorted_desc_of_neg)
qed

text \<open>
  C9. For a table with the group column, \<open>get_volume_by_group\<close> returns one row per
  distinct value of the column, null included when it occurs, each with the number of
  rows that have this value, in order of descending count; the counts add up to the
  number of rows of the input.
\<close>

theorem get_volume_by_group_counts:
  assumes "wf_df df" and "getitem df group_column = Inr c"
  shows "\<exists>ks ns. get_volume_by_group df group_column =
             Inr \<lparr>nrows = length ks,
                  cols = [(group_column, ks), (''Count'', map count_cell ns)]\<rparr>
           \<and> length ns = length ks
           \<and> distinct ks \<and> set ks = set c
           \<and> (\<forall>j < length ks. ns ! j = length (filter (\<lambda>x. x = ks ! j) c))
           \<and> sorted_wrt (\<ge>) ns
           \<and> sum_list ns = nrows df"
proof -
  let ?v = "value_counts c"
  from assms have len: "length c = nrows df"
    by (simp add: getitem_Inr_iff wf_col_length)
  have run: "get_volume_by_group df group_column =
      Inr \<lparr>nrows = length (map fst ?v),
           cols = [(group_column, map fst ?v), (''Count'', map count_cell (map snd ?v))]\<rparr>"
    using assms(2) by (simp add: get_volume_by_group_def bind_err_def Let_def comp_def)
  have cnt: "\<forall>j < length (map fst ?v). map snd ?v ! j = length (filter (\<lambda>x. x = map fst ?v ! j) c)"
  proof (intro allI impI)
    fix j assume "j < length (map fst ?v)"
    then have j: "j < length ?v" by simp
    then have "?v ! j \<in> set ?v" by simp
    then have "snd (?v ! j) = count_list c (fst (?v ! j))"
      by (simp add: value_counts_rows)
    also have "\<dots> = length (filter (\<lambda>x. x = fst (?v ! j)) c)"
      by (simp add: count_list_eq_length_filter) (metis (mono_tags, lifting) filter_cong)
    finally show "map snd ?v ! j = length (filter (\<lambda>x. x = map fst ?v ! j) c)"
      using j by simp
  qed
  from run cnt value_counts_keys [of c] value_counts_sorted [of c] value_counts_sum [of c] len
  show ?thesis
    by (intro exI [of _ "map fst ?v"] exI [of _ "map snd ?v"]) simp
qed

text \<open>
  The priorities of the cleaned sample table: two High, one Low, one null.
\<close>

theorem get_volume_by_group_counts_witness:
  "wf_df cleaned_tickets
   \<and> getitem cleaned_tickets priority_col = Inr [Str ''High'', Str ''High'', Str ''Low'', NA]
   \<and> get_volume_by_group cleaned_tickets priority_col =
       Inr \<lparr>nrows = 3,
            cols = [(priority_col, [Str ''High'', Str ''Low'', NA]),
                    (''Count'', [Num 2, Num 1, Num 1])]\<rparr>"
proof -
  have c: "getitem cleaned_tickets priority_col = Inr [Str ''High'', Str ''High'', Str ''Low'', NA]"
    by (simp add: getitem_def cleaned_tickets_def col_name_defs)
  have v: "get_volume_by_group cleaned_tickets priority_col =
       Inr \<lparr>nrows = 3,
            cols = [(priority_col, [Str ''High'', Str ''Low'', NA]),
                    (''Count'', [Num 2, Num 1, Num 1])]\<rparr>"
    by (simp add: get_volume_by_group_def bind_err_def c value_counts_def unique_def
        count_cell_def)
  from get_volume_by_group_counts [OF wf_cleaned_tickets c] wf_cleaned_tickets c v
  show ?thesis by simp
qed

section \<open>Satisfaction by group\<close>

lemma select_zip_fst:
  "length xs = length ys \<Longrightarrow>
     select (map P ys) xs = map fst (filter (\<lambda>p. P (snd p)) (zip xs ys))"
  by (induction xs ys rule: list_induct2) (simp_all add: select_def)

lemma select_zip_snd:
  "length xs = length ys \<Longrightarrow>
     select (map P ys) ys = map snd (filter (\<lambda>p. P (snd p)) (zip xs ys))"
  by (induction xs ys rule: list_induct2) (simp_all add: select_def)

lemma select_pairs:
  "select (map (\<lambda>x. x = k) (map fst ps)) (map snd ps) = map snd (filter (\<lambda>p. fst p = k) ps)"
  by (induction ps) (simp_all add: select_def)

lemma group_values_pairs:
  "group_values (map fst ps) (map snd ps) k = numbers (map snd (filter (\<lambda>p. fst p = k) ps))"
  by (simp only: group_values_def select_pairs)

lemma length_numbers:
  "\<forall>c \<in> set cs. numeric_or_null c \<and> notna c \<Longrightarrow> length (numbers cs) = length cs"
proof (induction cs)
  case Nil
  then show ?case by simp
next
  case (Cons c cs)
  then show ?case by (cases c) (simp_all add: notna_def)
qed

lemma set_group_keys [simp]: "set (group_keys keys) = set keys"
  by (simp add: group_keys_def)

lemma distinct_group_keys [simp]: "distinct (group_keys keys)"
  by (simp add: group_keys_def)

lemma desc_rank_le: "desc_rank (Num a) \<le> desc_rank (Num b) \<longleftrightarrow> b \<le> a"
  by (simp add: desc_rank_def)

lemma sorted_desc_means:
  "sorted (map (\<lambda>r. desc_rank (Num (f r))) rows) \<Longrightarrow> sorted_wrt (\<ge>) (map f rows)"
  by (induction rows) (auto simp: desc_rank_le)

lemma agg_rows:
  assumes ok: "\<forall>p \<in> set ps. numeric_or_null (snd p) \<and> notna (snd p)"
  shows "agg_mean_count (map fst ps) (map snd ps) =
     Inr (map (\<lambda>k. (k, Num (sum_list (numbers (map snd (filter (\<lambda>p. fst p = k) ps)))
                              / of_nat (length (filter (\<lambda>p. fst p = k) ps))),
                     length (filter (\<lambda>p. fst p = k) ps)))
            (group_keys (map fst ps)))"
proof -
  have all: "list_all numeric_or_null (map snd ps)"
    using ok by (simp add: list_all_iff)
  have len: "length (group_values (map fst ps) (map snd ps) k) =
      length (filter (\<lambda>p. fst p = k) ps)" for k
  proof -
    have "length (numbers (map snd (filter (\<lambda>p. fst p = k) ps))) =
        length (map snd (filter (\<lambda>p. fst p = k) ps))"
      by (rule length_numbers) (use ok in auto)
    then show ?thesis by (simp add: group_values_pairs)
  qed
  have mean: "mean_cell (group_values (map fst ps) (map snd ps) k) =
      Num (sum_list (numbers (map snd (filter (\<lambda>p. fst p = k) ps)))
           / of_nat (length (filter (\<lambda>p. fst p = k) ps)))"
    if "k \<in> set (group_keys (map fst ps))" for k
  proof -
    from that have "filter (\<lambda>p. fst p = k) ps \<noteq> []"
      by (auto simp: filter_empty_conv)
    then have "group_values (map fst ps) (map snd ps) k \<noteq> []"
      using len [of k] by (metis length_0_conv)
    then show ?thesis
      using len [of k] by (simp add: mean_cell_def group_values_pairs)
  qed
  show ?thesis
    using all mean by (simp add: agg_mean_count_def len)
qed

lemma insort_key_map_rows:
  "insort_key f (g x) (map g xs) = map g (insort_key (\<lambda>k. f (g k)) x xs)"
  by (induction xs) simp_all

lemma sort_key_map_rows:
  "sort_key f (map g xs) = map g (sort_key (\<lambda>k. f (g k)) xs)"
  by (induction xs) (simp_all add: insort_key_map_rows)

lemma numeric_cells:
  "\<forall>c \<in> set cs. numeric_or_null c \<and> notna c \<Longrightarrow> cs = map Num (numbers cs)"
proof (induction cs)
  case Nil
  then show ?case by simp
next
  case (Cons c cs)
  then show ?case by (cases c) (simp_all add: notna_def)
qed

lemma wf_rated_tickets: "wf_df rated_tickets"
  by (simp add: wf_df_def rated_tickets_def)

text \<open>
  C8. Take a table with a numeric satisfaction column and the group column, and let
  \<open>valid\<close> be its rows with a non-null rating, as pairs of group value and rating. Then
  \<open>get_satisfaction_by_group\<close> returns; the result is the empty table when \<open>valid\<close> is
  empty; otherwise it has one row per distinct group value of \<open>valid\<close> (null being a value
  like any other), with the number of valid rows of the group and, these rows having the
  ratings \<open>rs\<close>, the mean \<open>sum_list rs / length rs\<close>; the means are in descending order, and
  the counts add up to the number of rows with a non-null rating.
\<close>

theorem get_satisfaction_by_group_summary:
  assumes "wf_df df"
    and "getitem df satisfaction_col = Inr rating"
    and "getitem df group_column = Inr col"
    and "list_all numeric_or_null rating"
    and "valid = filter (\<lambda>p. snd p \<noteq> NA) (zip col rating)"
  shows "\<exists>res. get_satisfaction_by_group df group_column = Inr res
     \<and> length valid = length (filter (\<lambda>c. c \<noteq> NA) rating)
     \<and> (valid = [] \<longrightarrow> res = \<lparr>nrows = 0, cols = []\<rparr>)
     \<and> (valid \<noteq> [] \<longrightarrow>
          (\<exists>ks ms ns.
              res = \<lparr>nrows = length ks,
                     cols = [(group_column, ks),
                             (''Average Satisfaction'', map Num ms),
                             (''Count'', map (\<lambda>n. Num (of_nat n)) ns)]\<rparr>
            \<and> length ms = length ks \<and> length ns = length ks
            \<and> distinct ks \<and> set ks = fst ` set valid
            \<and> (\<forall>j < length ks.
                  ns ! j = length (filter (\<lambda>p. fst p = ks ! j) valid)
                  \<and> (\<exists>rs. map snd (filter (\<lambda>p. fst p = ks ! j) valid) = map Num rs
                         \<and> ms ! j = sum_list rs / of_nat (length rs)))
            \<and> sorted_wrt (\<ge>) ms
            \<and> sum_list ns = length (filter (\<lambda>c. c \<noteq> NA) rating)))"
proof -
  define cnt where "cnt k = length (filter (\<lambda>p. fst p = k) valid)" for k
  define avg where "avg k = sum_list (numbers (map snd (filter (\<lambda>p. fst p = k) valid)))
      / of_nat (cnt k)" for k
  define ks where "ks = sort_key (\<lambda>k. desc_rank (Num (avg k))) (group_keys (map fst valid))"
  from assms(1,2) have len_r: "length rating = nrows df"
    by (simp add: getitem_Inr_iff wf_col_length)
  from assms(1,3) have len_c: "length col = nrows df"
    by (simp add: getitem_Inr_iff wf_col_length)
  have valid: "valid = filter (\<lambda>p. notna (snd p)) (zip col rating)"
    by (simp add: assms(5) notna_def)
  have keys: "select (map notna rating) col = map fst valid"
    using len_r len_c by (simp add: valid select_zip_fst)
  have vals: "select (map notna rating) rating = map snd valid"
    using len_r len_c by (simp add: valid select_zip_snd [of col])
  have n_valid: "length valid = length (filter (\<lambda>c. c \<noteq> NA) rating)"
  proof -
    have "length (map snd valid) = length (filter notna rating)"
      by (simp only: flip: vals select_map_filter)
    then show ?thesis by (simp add: notna_def [abs_def])
  qed
  have ok: "\<forall>p \<in> set valid. numeric_or_null (snd p) \<and> notna (snd p)"
    using assms(4) by (auto simp: valid list_all_iff dest: set_zip_rightD)
  have nrows_valid: "nrows (mask_rows (map notna rating) df) = length valid"
    by (simp add: nrows_mask_rows_map n_valid notna_def [abs_def])
  show ?thesis
  proof (cases "valid = []")
    case True
    then have "get_satisfaction_by_group df group_column = Inr empty_frame"
      using assms(2) nrows_valid
      by (simp add: get_satisfaction_by_group_def bind_err_def Let_def)
    with True n_valid show ?thesis by (simp add: empty_frame_def)
  next
    case False
    have g1: "getitem (mask_rows (map notna rating) df) group_column = Inr (map fst valid)"
      using assms(3) by (simp add: getitem_Inr_iff map_of_mask_rows keys)
    have g2: "getitem (mask_rows (map notna rating) df) satisfaction_col = Inr (map snd valid)"
      using assms(2) by (simp add: getitem_Inr_iff map_of_mask_rows vals)
    have sorted_rows: "sort_by_mean_desc
        (map (\<lambda>k. (k, Num (avg k), cnt k)) (group_keys (map fst valid))) =
        map (\<lambda>k. (k, Num (avg k), cnt k)) ks"
      by (simp add: sort_by_mean_desc_def sort_key_map_rows ks_def)
    have run: "get_satisfaction_by_group df group_column =
        Inr \<lparr>nrows = length ks,
             cols = [(group_column, ks),
                     (''Average Satisfaction'', map Num (map avg ks)),
                     (''Count'', map count_cell (map cnt ks))]\<rparr>"
      using assms(2) nrows_valid False g1 g2 agg_rows [OF ok] sorted_rows
      by (simp add: get_satisfaction_by_group_def bind_err_def Let_def grouped_frame_def
          avg_def cnt_def comp_def)
    have d: "distinct ks" and s: "set ks = fst ` set valid"
      by (simp_all add: ks_def)
    have srt: "sorted_wrt (\<ge>) (map avg ks)"
    proof -
      have "sorted (map (\<lambda>k. desc_rank (Num (avg k))) ks)"
        unfolding ks_def by (rule sorted_sort_key)
      then show ?thesis by (rule sorted_desc_means)
    qed
    have total: "sum_list (map cnt ks) = length (filter (\<lambda>c. c \<noteq> NA) rating)"
    proof -
      have c: "cnt k = count_list (map fst valid) k" for k
      proof -
        have "count_list (map fst valid) k = length (filter ((=) k) (map fst valid))"
          by (rule count_list_eq_length_filter)
        also have "\<dots> = length (filter (\<lambda>p. fst p = k) valid)"
          by (simp add: filter_map comp_def eq_commute)
        finally show ?thesis by (simp add: cnt_def)
      qed
      have "sum_list (map cnt ks) = sum_list (map (count_list (map fst valid)) ks)"
        by (simp add: c [abs_def])
      also have "\<dots> = length (map fst valid)"
        by (rule sum_counts_distinct) (simp_all add: d s)
      finally show ?thesis by (simp add: n_valid)
    qed
    have group: "\<exists>rs. map snd (filter (\<lambda>p. fst p = k) valid) = map Num rs
        \<and> avg k = sum_list rs / of_nat (length rs)" for k
    proof -
      let ?g = "map snd (filter (\<lambda>p. fst p = k) valid)"
      have cells: "?g = map Num (numbers ?g)"
        by (rule numeric_cells) (use ok in auto)
      then have "length (numbers ?g) = cnt k"
        by (metis cnt_def length_map)
      then have "avg k = sum_list (numbers ?g) / of_nat (length (numbers ?g))"
        by (simp add: avg_def)
      with cells show ?thesis by blast
    qed
    have rows: "\<forall>j < length ks.
        map cnt ks ! j = length (filter (\<lambda>p. fst p = ks ! j) valid)
        \<and> (\<exists>rs. map snd (filter (\<lambda>p. fst p = ks ! j) valid) = map Num rs
               \<and> map avg ks ! j = sum_list rs / of_nat (length rs))"
      using group by (simp add: cnt_def)
    from run False n_valid d s srt total rows show ?thesis
      by (intro exI [of _ "\<lparr>nrows = length ks,
             cols = [(group_column, ks),
                     (''Average Satisfaction'', map Num (map avg ks)),
                     (''Count'', map count_cell (map cnt ks))]\<rparr>"] conjI impI
          exI [of _ ks] exI [of _ "map avg ks"] exI [of _ "map cnt ks"])
       (simp_all add: count_cell_def [abs_def])
  qed
qed

text \<open>
  Priorities and ratings with different means: Low has mean 4.5 over two rated rows (its
  third row has no rating), the null group mean 3 over one, High mean 1.5 over two; the
  groups, listed by key as High, Low, null, come out in the order of their means.
\<close>

theorem get_satisfaction_by_group_summary_witness:
  "wf_df rated_tickets
   \<and> getitem rated_tickets satisfaction_col = Inr [Num 1, Num 5, Num 2, Num 3, Num 4, NA]
   \<and> getitem rated_tickets priority_col =
       Inr [Str ''High'', Str ''Low'', Str ''High'', NA, Str ''Low'', Str ''Low'']
   \<and> list_all numeric_or_null [Num 1, Num 5, Num 2, Num 3, Num 4, NA]
   \<and> get_satisfaction_by_group rated_tickets priority_col =
       Inr \<lparr>nrows = 3,
            cols = [(priority_col, [Str ''Low'', NA, Str ''High'']),
                    (''Average Satisfaction'', [Num (9 / 2), Num 3, Num (3 / 2)]),
                    (''Count'', [Num 2, Num 1, Num 2])]\<rparr>"
proof -
  have r: "getitem rated_tickets satisfaction_col = Inr [Num 1, Num 5, Num 2, Num 3, Num 4, NA]"
    by (simp add: getitem_def rated_tickets_def col_name_defs)
  have c: "getitem rated_tickets priority_col =
      Inr [Str ''High'', Str ''Low'', Str ''High'', NA, Str ''Low'', Str ''Low'']"
    by (simp add: getitem_def rated_tickets_def col_name_defs)
  have n: "list_all numeric_or_null [Num 1, Num 5, Num 2, Num 3, Num 4, NA]"
    by simp
  have v: "[(Str ''High'', Num 1), (Str ''Low'', Num 5), (Str ''High'', Num 2), (NA, Num 3),
       (Str ''Low'', Num 4)] =
      filter (\<lambda>p. snd p \<noteq> NA)
        (zip [Str ''High'', Str ''Low'', Str ''High'', NA, Str ''Low'', Str ''Low'']
             [Num 1, Num 5, Num 2, Num 3, Num 4, NA])"
    by simp
  have g: "get_satisfaction_by_group rated_tickets priority_col =
       Inr \<lparr>nrows = 3,
            cols = [(priority_col, [Str ''Low'', NA, Str ''High'']),
                    (''Average Satisfaction'', [Num (9 / 2), Num 3, Num (3 / 2)]),
                    (''Count'', [Num 2, Num 1, Num 2])]\<rparr>"
    by (simp add: get_satisfaction_by_group_def bind_err_def r Let_def mask_rows_def
        getitem_def rated_tickets_def col_name_defs select_def notna_def agg_mean_count_def
        group_keys_def unique_def group_rank_def group_values_def mean_cell_def
        sort_by_mean_desc_def desc_rank_def grouped_frame_def count_cell_def)
  from get_satisfaction_by_group_summary [OF wf_rated_tickets r c n v]
    wf_rated_tickets r c n g
  show ?thesis by simp
qed

end
